theory Spec2Isabelle
  imports Complex_Main
begin

section \<open>Token streaming clients of the chat front end\<close>

text \<open>
  The embedded code is the class \<open>ChatAPI\<close> of \<open>frontend/src/services/api.ts\<close>. The source
  tree holds two revisions of that file:
  \<^item> \<open>src/unnamed/part_004\<close>, whose \<open>sendMessageStream\<close> keeps a line buffer across chunks,
    decodes complete lines with the local function \<open>processLine\<close>, and releases the body
    reader in a \<open>finally\<close> block;
  \<^item> \<open>src/frontend/src/services/api.ts\<close>, whose \<open>sendMessageStream\<close> splits every chunk on
    its own, has no buffer and never releases the reader.

  The first is embedded under the source's names, the second under the same names with the
  suffix \<open>_unbuffered\<close>. \<open>createWebSocketChat\<close>, \<open>sendWebSocketMessage\<close> and the request
  bodies are the same text in both files and are embedded once.
\<close>

subsection \<open>Text\<close>

text \<open>
  A JavaScript string is a list of characters. The chunks of a response body are modelled
  after decoding, as the texts \<open>decoder.decode(value, ...)\<close> returns.
\<close>

definition newline :: char where
  "newline = CHR 0x0A"

text \<open>\<open>s.split('\n')\<close>: the pieces between line feeds; never the empty list.\<close>

fun split_nl :: "string \<Rightarrow> string list" where
  "split_nl [] = [[]]"
| "split_nl (c # cs) =
     (if c = newline then [] # split_nl cs
      else (case split_nl cs of
              [] \<Rightarrow> [[c]]
            | l # ls \<Rightarrow> (c # l) # ls))"

text \<open>
  \<open>s.trim()\<close> removes white space and line terminators at both ends. Of the characters
  below 256 these are tab, line feed, vertical tab, form feed, carriage return, space and
  the no-break space.
\<close>

definition is_whitespace :: "char \<Rightarrow> bool" where
  "is_whitespace c \<longleftrightarrow>
     c = CHR 0x09 \<or> c = CHR 0x0A \<or> c = CHR 0x0B \<or> c = CHR 0x0C \<or>
     c = CHR 0x0D \<or> c = CHR 0x20 \<or> c = CHR 0xA0"

definition trim :: "string \<Rightarrow> string" where
  "trim s = rev (dropWhile is_whitespace (rev (dropWhile is_whitespace s)))"

definition startsWith :: "string \<Rightarrow> string \<Rightarrow> bool" where
  "startsWith s p \<longleftrightarrow> take (length p) s = p"

definition slice :: "nat \<Rightarrow> string \<Rightarrow> string" where
  "slice n s = drop n s"

subsection \<open>JSON values\<close>

text \<open>
  What \<open>JSON.parse\<close> returns. A number is kept by its value; an object is the list of its
  members. \<open>JSON.parse\<close> itself belongs to the platform: it is a parameter of the model, a
  function that returns \<open>None\<close> where \<open>JSON.parse\<close> throws.
\<close>

datatype json =
    JNull
  | JBool bool
  | JNumber rat
  | JString string
  | JArray "json list"
  | JObject "(string \<times> json) list"

type_synonym json_parse = "string \<Rightarrow> json option"

text \<open>The truth value JavaScript gives a parsed value in \<open>if (parsed)\<close>.\<close>

fun truthy :: "json \<Rightarrow> bool" where
  "truthy JNull = False"
| "truthy (JBool b) = b"
| "truthy (JNumber x) = (x \<noteq> 0)"
| "truthy (JString s) = (s \<noteq> [])"
| "truthy (JArray xs) = True"
| "truthy (JObject kvs) = True"

subsection \<open>The buffered stream client\<close>

text \<open>
  What a run of the generator does, in order: a payload handed to the consumer by
  \<open>yield\<close>, a \<open>console.warn\<close> about a payload that did not parse, and
  \<open>reader.releaseLock()\<close>.
\<close>

datatype effect = Yield json | Warn string | ReleaseLock

text \<open>
  \<open>processLine\<close> returns the parsed payload or \<open>null\<close>, and may warn. Its \<open>null\<close> is
  \<open>JNull\<close>: the caller only tests the truth value of what it gets.
\<close>

definition processLine :: "json_parse \<Rightarrow> string \<Rightarrow> json \<times> effect list" where
  "processLine parse line =
     (let trimmedLine = trim line in
      if trimmedLine = [] then (JNull, [])
      else if startsWith trimmedLine ''data: '' then
        (let data = slice 6 trimmedLine in
         if data = ''[DONE]'' then (JNull, [])
         else (case parse data of
                 Some parsed \<Rightarrow> (parsed, [])
               | None \<Rightarrow> (JNull, [Warn data])))
      else (JNull, []))"

text \<open>
  \<open>for (const line of lines) { const parsed = processLine(line); if (parsed) yield parsed; }\<close>
\<close>

fun for_lines :: "json_parse \<Rightarrow> string list \<Rightarrow> effect list" where
  "for_lines parse [] = []"
| "for_lines parse (line # lines) =
     (case processLine parse line of
        (parsed, warned) \<Rightarrow>
          warned @ (if truthy parsed then [Yield parsed] else []) @ for_lines parse lines)"

text \<open>
  The response body is the list of what successive calls of \<open>reader.read()\<close> deliver: a
  chunk, the end of the body (\<open>done\<close>), or a rejection. A list that ends without \<open>Done\<close>
  or \<open>Rejected\<close> is a body that stalls.
\<close>

datatype read_result = Chunk string | Done | Rejected

datatype failure = HttpError nat | BodyNotReadable | ReadFailed

datatype exit = Returned | Threw failure | Abandoned

text \<open>
  The generator between two reads: suspended with its buffer, or finished.
\<close>

datatype generator = Suspended string | Finished exit

text \<open>
  The \<open>while (true)\<close> loop inside \<open>try\<close>, started with a buffer. On \<open>done\<close> the rest of the
  buffer is processed and the loop is left by \<open>break\<close>; nothing is read after that.
  \<open>lines.pop() || ''\<close> is the last piece of the split.
\<close>

fun while_loop :: "json_parse \<Rightarrow> string \<Rightarrow> read_result list \<Rightarrow> effect list \<times> generator" where
  "while_loop parse buffer [] = ([], Suspended buffer)"
| "while_loop parse buffer (Done # rest) =
     ((if trim buffer \<noteq> [] then for_lines parse (split_nl buffer) else []),
      Finished Returned)"
| "while_loop parse buffer (Rejected # rest) = ([], Finished (Threw ReadFailed))"
| "while_loop parse buffer (Chunk v # rest) =
     (let lines = split_nl (buffer @ v) in
      case while_loop parse (last lines) rest of
        (es, g) \<Rightarrow> (for_lines parse (butlast lines) @ es, g))"

text \<open>
  The consumer. \<open>None\<close> iterates as long as the generator yields; \<open>Some n\<close> leaves its
  loop on receiving value number \<open>n + 1\<close>, which calls the generator's \<open>return()\<close> while it
  is suspended at that \<open>yield\<close>. \<open>cut_effects\<close> gives the effects up to that \<open>yield\<close>, if
  the run gets that far.
\<close>

fun cut_at :: "nat \<Rightarrow> effect list \<Rightarrow> effect list option" where
  "cut_at n [] = None"
| "cut_at n (Yield v # es) =
     (case n of
        0 \<Rightarrow> Some [Yield v]
      | Suc m \<Rightarrow> map_option ((#) (Yield v)) (cut_at m es))"
| "cut_at n (e # es) = map_option ((#) e) (cut_at n es)"

definition cut_effects :: "nat option \<Rightarrow> effect list \<Rightarrow> effect list option" where
  "cut_effects abandon es = (case abandon of None \<Rightarrow> None | Some n \<Rightarrow> cut_at n es)"

record response =
  ok :: bool
  status :: nat
  body :: "read_result list option"

record run =
  effects :: "effect list"
  state :: generator

text \<open>
  \<open>sendMessageStream\<close> from the response on. The \<open>finally\<close> block runs when the \<open>try\<close>
  block is left: by \<open>break\<close>, by a rejected read, or by the consumer's \<open>return()\<close>.
\<close>

definition sendMessageStream :: "json_parse \<Rightarrow> response \<Rightarrow> nat option \<Rightarrow> run" where
  "sendMessageStream parse response abandon =
     (if \<not> ok response then
        \<lparr>effects = [], state = Finished (Threw (HttpError (status response)))\<rparr>
      else case body response of
        None \<Rightarrow> \<lparr>effects = [], state = Finished (Threw BodyNotReadable)\<rparr>
      | Some reads \<Rightarrow>
          (case while_loop parse [] reads of
             (es, g) \<Rightarrow>
               (case cut_effects abandon es of
                  Some pre \<Rightarrow> \<lparr>effects = pre @ [ReleaseLock], state = Finished Abandoned\<rparr>
                | None \<Rightarrow>
                    (case g of
                       Finished x \<Rightarrow> \<lparr>effects = es @ [ReleaseLock], state = g\<rparr>
                     | Suspended b \<Rightarrow> \<lparr>effects = es, state = g\<rparr>))))"

subsection \<open>The unbuffered stream client\<close>

text \<open>
  The body of the \<open>for\<close> loop of \<open>src/frontend/src/services/api.ts\<close>: no \<open>trim\<close>, a
  \<open>return\<close> at \<open>[DONE]\<close> (the flag of the result), every parsed value yielded, a failed
  parse ignored.
\<close>

fun for_lines_unbuffered :: "json_parse \<Rightarrow> string list \<Rightarrow> effect list \<times> bool" where
  "for_lines_unbuffered parse [] = ([], False)"
| "for_lines_unbuffered parse (line # lines) =
     (if startsWith line ''data: '' then
        (let data = slice 6 line in
         if data = ''[DONE]'' then ([], True)
         else (case parse data of
                 Some parsed \<Rightarrow>
                   (case for_lines_unbuffered parse lines of
                      (es, returned) \<Rightarrow> (Yield parsed # es, returned))
               | None \<Rightarrow> for_lines_unbuffered parse lines))
      else for_lines_unbuffered parse lines)"

fun while_loop_unbuffered :: "json_parse \<Rightarrow> read_result list \<Rightarrow> effect list \<times> generator" where
  "while_loop_unbuffered parse [] = ([], Suspended [])"
| "while_loop_unbuffered parse (Done # rest) = ([], Finished Returned)"
| "while_loop_unbuffered parse (Rejected # rest) = ([], Finished (Threw ReadFailed))"
| "while_loop_unbuffered parse (Chunk v # rest) =
     (case for_lines_unbuffered parse (split_nl v) of
        (es, True) \<Rightarrow> (es, Finished Returned)
      | (es, False) \<Rightarrow>
          (case while_loop_unbuffered parse rest of
             (es', g) \<Rightarrow> (es @ es', g)))"

definition sendMessageStream_unbuffered :: "json_parse \<Rightarrow> response \<Rightarrow> nat option \<Rightarrow> run" where
  "sendMessageStream_unbuffered parse response abandon =
     (if \<not> ok response then
        \<lparr>effects = [], state = Finished (Threw (HttpError (status response)))\<rparr>
      else case body response of
        None \<Rightarrow> \<lparr>effects = [], state = Finished Returned\<rparr>
      | Some reads \<Rightarrow>
          (case while_loop_unbuffered parse reads of
             (es, g) \<Rightarrow>
               (case cut_effects abandon es of
                  Some pre \<Rightarrow> \<lparr>effects = pre, state = Finished Abandoned\<rparr>
                | None \<Rightarrow> \<lparr>effects = es, state = g\<rparr>)))"

subsection \<open>The WebSocket client\<close>

text \<open>
  The calls \<open>ws.onmessage\<close> makes, in order: the three callbacks passed to
  \<open>createWebSocketChat\<close> with their argument (\<open>None\<close> is \<open>undefined\<close>), and the
  \<open>console.error\<close> of the \<open>catch\<close> block. The callbacks themselves are the caller's and
  are taken to return normally.
\<close>

datatype callback =
    OnMessage "json option"
  | OnComplete
  | OnError "json option"
  | ConsoleError

text \<open>
  \<open>data.type\<close>, \<open>data.token\<close>, \<open>data.error\<close>: the member of an object, \<open>undefined\<close> on a
  number, a string, a boolean or an array. On \<open>null\<close> the read throws; \<open>onmessage\<close> treats
  that case before reading. An object as \<open>JSON.parse\<close> returns it has no key twice.
\<close>

fun property :: "json \<Rightarrow> string \<Rightarrow> json option" where
  "property (JObject kvs) k = map_of kvs k"
| "property v k = None"

definition onmessage :: "json_parse \<Rightarrow> string \<Rightarrow> callback list" where
  "onmessage parse event_data =
     (case parse event_data of
        None \<Rightarrow> [ConsoleError]
      | Some data \<Rightarrow>
          if data = JNull then [ConsoleError]
          else if property data ''type'' = Some (JString ''token'') then
            [OnMessage (property data ''token'')]
          else if property data ''type'' = Some (JString ''complete'') then [OnComplete]
          else if property data ''type'' = Some (JString ''error'') then
            [OnError (property data ''error'')]
          else [])"

text \<open>The messages of a connection, handled one after the other.\<close>

definition onmessages :: "json_parse \<Rightarrow> string list \<Rightarrow> callback list" where
  "onmessages parse event_datas = concat (map (onmessage parse) event_datas)"

text \<open>
  \<open>sendWebSocketMessage\<close>. The socket is its \<open>readyState\<close> and the texts handed to
  \<open>ws.send\<close> so far; \<open>JSON.stringify\<close> is the platform's and a parameter. The \<open>else\<close> branch
  throws and touches nothing.
\<close>

datatype ready_state = CONNECTING | OPEN | CLOSING | CLOSED

record websocket =
  readyState :: ready_state
  sent :: "string list"

datatype send_error = NotConnected

definition sendWebSocketMessage ::
  "(json \<Rightarrow> string) \<Rightarrow> websocket \<Rightarrow> json list \<Rightarrow> send_error + websocket" where
  "sendWebSocketMessage stringify ws messages =
     (if readyState ws = OPEN then
        Inr (ws\<lparr>sent :=
               sent ws @ [stringify (JObject [(''type'', JString ''chat''),
                                              (''messages'', JArray messages)])]\<rparr>)
      else Inl NotConnected)"

subsection \<open>The request body\<close>

text \<open>
  \<open>options.maxTokens || 1000\<close> and its two siblings: the default replaces every falsy
  value. \<open>None\<close> is a field that is not given.
\<close>

record options =
  maxTokens :: "rat option"
  temperature :: "rat option"
  topP :: "rat option"

definition or_default :: "rat option \<Rightarrow> rat \<Rightarrow> rat" where
  "or_default v d = (case v of None \<Rightarrow> d | Some x \<Rightarrow> if x = 0 then d else x)"

text \<open>
  The object \<open>sendMessage\<close> and \<open>sendMessageStream\<close> pass to \<open>JSON.stringify\<close> as the body of
  their request (the same text in both functions).
\<close>

definition request_body :: "json list \<Rightarrow> options \<Rightarrow> json" where
  "request_body messages opts =
     JObject [(''messages'', JArray messages),
              (''max_tokens'', JNumber (or_default (maxTokens opts) 1000)),
              (''temperature'', JNumber (or_default (temperature opts) (7 / 10))),
              (''top_p'', JNumber (or_default (topP opts) (9 / 10)))]"

subsection \<open>Sample inputs\<close>

text \<open>
  \<open>JSON.parse\<close> on the texts the examples below use: each text of the table with the value
  \<open>JSON.parse\<close> returns for it. Every other text an example passes to it is one
  \<open>JSON.parse\<close> rejects.
\<close>

definition sample_parse :: json_parse where
  \<open>sample_parse = map_of
     [(''{"text":"Hello"}'', JObject [(''text'', JString ''Hello'')]),
      (''{"text":"partial"}'', JObject [(''text'', JString ''partial'')]),
      (''{"type":"token","token":"a"}'',
         JObject [(''type'', JString ''token''), (''token'', JString ''a'')]),
      (''{"type":"token","token":"b"}'',
         JObject [(''type'', JString ''token''), (''token'', JString ''b'')]),
      (''{"type":"complete"}'', JObject [(''type'', JString ''complete'')]),
      (''{"type":"ping"}'', JObject [(''type'', JString ''ping'')])]\<close>

text \<open>A response with status 200 and a readable body.\<close>

definition ok_response :: "read_result list \<Rightarrow> response" where
  "ok_response reads = \<lparr>ok = True, status = 200, body = Some reads\<rparr>"

text \<open>
  The text of a stream of data lines with the given payloads, closed by the terminator.
\<close>

definition data_line :: "string \<Rightarrow> string" where
  "data_line payload = ''data: '' @ payload @ [newline]"

definition stream_text :: "string list \<Rightarrow> string" where
  "stream_text payloads = concat (map data_line payloads) @ data_line ''[DONE]''"

text \<open>
  A payload of such a stream is well formed for a value when it is one line that does not
  end in white space, is not the terminator, and \<open>JSON.parse\<close> returns the value for it, a
  truthy one.
\<close>

definition well_formed :: "json_parse \<Rightarrow> string \<Rightarrow> json \<Rightarrow> bool" where
  "well_formed parse payload v \<longleftrightarrow>
     payload \<noteq> [] \<and> newline \<notin> set payload \<and> \<not> is_whitespace (last payload) \<and>
     payload \<noteq> ''[DONE]'' \<and> parse payload = Some v \<and> truthy v"

section \<open>Properties\<close>

subsection \<open>Splitting text into lines\<close>

lemma split_nl_not_Nil: "split_nl s \<noteq> []"
  by (induction s) (auto split: list.splits)

lemma split_nl_append:
  "split_nl (a @ b) = butlast (split_nl a) @ split_nl (last (split_nl a) @ b)"
proof (induction a)
  case Nil
  show ?case by simp
next
  case (Cons c a)
  show ?case
  proof (cases "c = newline")
    case True
    then show ?thesis using Cons split_nl_not_Nil[of a] by simp
  next
    case False
    obtain x xs where a: "split_nl a = x # xs"
      using split_nl_not_Nil[of a] by (cases "split_nl a") auto
    show ?thesis
    proof (cases xs)
      case Nil
      with a False Cons show ?thesis
        using split_nl_not_Nil[of "x @ b"] by (auto split: list.splits)
    next
      case (Cons y ys)
      with a False Cons.IH show ?thesis
        by (auto split: list.splits)
    qed
  qed
qed

lemma split_nl_no_newline: "newline \<notin> set s \<Longrightarrow> split_nl s = [s]"
  by (induction s) auto

lemma split_nl_lines_no_newline: "l \<in> set (split_nl s) \<Longrightarrow> newline \<notin> set l"
  by (induction s arbitrary: l) (auto split: if_splits list.splits)

lemma last_split_nl_no_newline: "newline \<notin> set (last (split_nl s))"
  using split_nl_lines_no_newline[of "last (split_nl s)" s] split_nl_not_Nil[of s]
  by simp

subsection \<open>The buffered client does not depend on the chunk boundaries\<close>

lemma for_lines_append: "for_lines parse (xs @ ys) = for_lines parse xs @ for_lines parse ys"
  by (induction xs) (auto split: prod.splits)

lemma trim_Nil_processLine: "trim line = [] \<Longrightarrow> processLine parse line = (JNull, [])"
  by (simp add: processLine_def)

text \<open>
  After any number of chunks the loop has processed the complete lines of the text received
  so far and holds the unfinished last line in its buffer.
\<close>

lemma while_loop_chunks:
  "newline \<notin> set buffer \<Longrightarrow>
   while_loop parse buffer (map Chunk cs @ rest) =
     (case while_loop parse (last (split_nl (buffer @ concat cs))) rest of
        (es, g) \<Rightarrow> (for_lines parse (butlast (split_nl (buffer @ concat cs))) @ es, g))"
proof (induction cs arbitrary: buffer)
  case Nil
  then show ?case by (simp add: split_nl_no_newline split: prod.splits)
next
  case (Cons c cs)
  have "split_nl (buffer @ c @ concat cs) =
        butlast (split_nl (buffer @ c)) @ split_nl (last (split_nl (buffer @ c)) @ concat cs)"
    using split_nl_append[of "buffer @ c" "concat cs"] by simp
  then show ?case
    using Cons.IH[OF last_split_nl_no_newline, of "buffer @ c"] split_nl_not_Nil
    by (simp add: Let_def for_lines_append butlast_append split: prod.splits)
qed

lemma while_loop_one_chunk:
  "while_loop parse [] (map Chunk cs @ rest) = while_loop parse [] (Chunk (concat cs) # rest)"
  using while_loop_chunks[of "[]" parse cs rest] by (simp add: Let_def)

text \<open>
  A body that ends: every line of the whole text is processed once, in order, the
  unterminated last line included.
\<close>

lemma while_loop_Done_lines:
  assumes nb: "newline \<notin> set buffer"
  shows "while_loop parse buffer (map Chunk cs @ Done # rest) =
           (for_lines parse (split_nl (buffer @ concat cs)), Finished Returned)"
proof -
  let ?ls = "split_nl (buffer @ concat cs)"
  have l: "split_nl (last ?ls) = [last ?ls]"
    by (rule split_nl_no_newline) (rule last_split_nl_no_newline)
  have f: "(if trim (last ?ls) \<noteq> [] then for_lines parse (split_nl (last ?ls)) else [])
           = for_lines parse [last ?ls]"
    by (simp add: l trim_Nil_processLine)
  have "for_lines parse (butlast ?ls) @ for_lines parse [last ?ls] = for_lines parse ?ls"
    using split_nl_not_Nil[of "buffer @ concat cs"]
    by (simp add: for_lines_append[symmetric] del: for_lines.simps)
  then show ?thesis
    using while_loop_chunks[OF nb, of parse cs "Done # rest"] f by simp
qed

text \<open>
  The buffered \<open>sendMessageStream\<close> gives the same run for every way of cutting a text into
  chunks: the run on the chunks \<open>cs\<close> is the run on the one chunk \<open>concat cs\<close>, whatever
  follows and whenever the consumer stops.
\<close>

theorem sendMessageStream_chunking:
  "sendMessageStream parse (ok_response (map Chunk cs @ rest)) abandon =
   sendMessageStream parse (ok_response (Chunk (concat cs) # rest)) abandon"
  unfolding sendMessageStream_def ok_response_def
  by (simp only: response.simps option.case while_loop_one_chunk)

subsection \<open>A valid stream\<close>

lemma trim_id:
  assumes s: "s \<noteq> []" and h: "\<not> is_whitespace (hd s)" and l: "\<not> is_whitespace (last s)"
  shows "trim s = s"
proof -
  from s h have 1: "dropWhile is_whitespace s = s"
    by (cases s) auto
  from s obtain xs x where sx: "s = xs @ [x]"
    by (cases s rule: rev_cases) auto
  with l have 2: "dropWhile is_whitespace (rev s) = rev s"
    by simp
  show ?thesis by (simp add: trim_def 1 2)
qed

lemma processLine_payload:
  assumes "well_formed parse payload v"
  shows "processLine parse (''data: '' @ payload) = (v, [])"
proof -
  from assms have ne: "payload \<noteq> []" and l: "\<not> is_whitespace (last payload)"
    by (auto simp: well_formed_def)
  have "trim (''data: '' @ payload) = ''data: '' @ payload"
    using ne l by (intro trim_id) (auto simp: is_whitespace_def)
  with assms show ?thesis
    by (simp add: processLine_def startsWith_def slice_def well_formed_def)
qed

lemma processLine_terminator: "processLine parse ''data: [DONE]'' = (JNull, [])"
  by (simp add: processLine_def trim_def is_whitespace_def startsWith_def slice_def)

lemma processLine_blank: "processLine parse [] = (JNull, [])"
  by (simp add: processLine_def trim_def)

lemma split_nl_line: "newline \<notin> set l \<Longrightarrow> split_nl (l @ newline # rest) = l # split_nl rest"
  by (induction l) auto

lemma split_nl_data_line:
  "newline \<notin> set payload \<Longrightarrow>
   split_nl (data_line payload @ rest) = (''data: '' @ payload) # split_nl rest"
  using split_nl_line[of "''data: '' @ payload" rest]
  by (simp add: data_line_def newline_def)

lemma for_lines_stream_text:
  "list_all2 (well_formed parse) payloads vs \<Longrightarrow>
   for_lines parse (split_nl (stream_text payloads)) = map Yield vs"
  unfolding stream_text_def
proof (induction payloads vs rule: list_all2_induct)
  case Nil
  have "split_nl (data_line ''[DONE]'') = [''data: [DONE]'', []]"
    using split_nl_data_line[of "''[DONE]''" "[]"] by (simp add: newline_def)
  then show ?case by (simp add: processLine_terminator processLine_blank)
next
  case (Cons p ps v vs)
  from Cons.hyps(1) have nl: "newline \<notin> set p" and t: "truthy v"
    by (auto simp: well_formed_def)
  show ?case
    using Cons.IH processLine_payload[OF Cons.hyps(1)] t
    by (simp add: split_nl_data_line[OF nl])
qed

text \<open>
  The buffered \<open>sendMessageStream\<close> on a valid stream, however its text is cut into chunks:
  the values of the payloads in their order, then the release of the reader and the normal
  return.
\<close>

theorem sendMessageStream_valid_stream:
  assumes "list_all2 (well_formed parse) payloads vs"
    and "concat cs = stream_text payloads"
  shows "sendMessageStream parse (ok_response (map Chunk cs @ Done # rest)) None =
           \<lparr>effects = map Yield vs @ [ReleaseLock], state = Finished Returned\<rparr>"
proof -
  have "while_loop parse [] (map Chunk cs @ Done # rest) = (map Yield vs, Finished Returned)"
    using while_loop_Done_lines[of "[]" parse cs rest] for_lines_stream_text[OF assms(1)] assms(2)
    by simp
  then show ?thesis
    by (simp add: sendMessageStream_def ok_response_def cut_effects_def)
qed

subsection \<open>Releasing the reader\<close>

lemma processLine_no_release: "processLine parse line = (v, w) \<Longrightarrow> ReleaseLock \<notin> set w"
  by (auto simp: processLine_def Let_def split: option.splits if_splits)

lemma for_lines_no_release: "ReleaseLock \<notin> set (for_lines parse ls)"
proof (induction ls)
  case Nil
  show ?case by simp
next
  case (Cons l ls)
  obtain v w where p: "processLine parse l = (v, w)"
    by (cases "processLine parse l")
  with Cons processLine_no_release[OF p] show ?case by simp
qed

lemma while_loop_no_release: "ReleaseLock \<notin> set (fst (while_loop parse buffer reads))"
  by (induction parse buffer reads rule: while_loop.induct)
     (auto simp: for_lines_no_release Let_def split: prod.splits)

lemma cut_at_subset: "cut_at n es = Some pre \<Longrightarrow> set pre \<subseteq> set es"
proof (induction es arbitrary: n pre)
  case Nil
  then show ?case by simp
next
  case (Cons e es)
  show ?case
  proof (cases e)
    case (Yield v)
    show ?thesis
    proof (cases n)
      case 0
      with Yield Cons.prems show ?thesis by auto
    next
      case (Suc m)
      with Yield Cons.prems obtain pre' where "cut_at m es = Some pre'" "pre = e # pre'"
        by auto
      with Cons.IH[of m pre'] show ?thesis by auto
    qed
  next
    case (Warn d)
    with Cons.prems obtain pre' where "cut_at n es = Some pre'" "pre = e # pre'"
      by auto
    with Cons.IH[of n pre'] show ?thesis by auto
  next
    case ReleaseLock
    with Cons.prems obtain pre' where "cut_at n es = Some pre'" "pre = e # pre'"
      by auto
    with Cons.IH[of n pre'] show ?thesis by auto
  qed
qed

lemma cut_subset: "cut_effects abandon es = Some pre \<Longrightarrow> set pre \<subseteq> set es"
  by (cases abandon) (auto simp: cut_effects_def dest: cut_at_subset)

lemma count_release_snoc:
  "ReleaseLock \<notin> set es \<Longrightarrow> count_list (es @ [ReleaseLock]) ReleaseLock = 1"
  by (induction es) auto

text \<open>
  The buffered \<open>sendMessageStream\<close>, once it has a reader: however the generator finishes
  (end of the body, a rejected read, the consumer's \<open>return()\<close>), its run holds exactly one
  \<open>releaseLock\<close>.
\<close>

theorem sendMessageStream_releases_once:
  assumes "ok response" and "body response = Some reads"
    and "state (sendMessageStream parse response abandon) = Finished x"
  shows "count_list (effects (sendMessageStream parse response abandon)) ReleaseLock = 1"
proof -
  obtain es g where w: "while_loop parse [] reads = (es, g)"
    by (cases "while_loop parse [] reads")
  have nr: "ReleaseLock \<notin> set es"
    using while_loop_no_release[of parse "[]" reads] w by simp
  show ?thesis
  proof (cases "cut_effects abandon es")
    case (Some pre)
    with nr cut_subset[OF Some] have "ReleaseLock \<notin> set pre" by auto
    then have "count_list (pre @ [ReleaseLock]) ReleaseLock = 1"
      by (rule count_release_snoc)
    with Some w assms(1,2) show ?thesis
      by (simp add: sendMessageStream_def)
  next
    case None
    have c: "count_list (es @ [ReleaseLock]) ReleaseLock = 1"
      using nr by (rule count_release_snoc)
    show ?thesis
    proof (cases g)
      case (Suspended b)
      with None w assms show ?thesis by (simp add: sendMessageStream_def)
    next
      case (Finished y)
      with None w assms(1,2) c show ?thesis by (simp add: sendMessageStream_def)
    qed
  qed
qed

text \<open>A body that ends or fails finishes the generator.\<close>

lemma while_loop_finishes:
  "Done \<in> set reads \<or> Rejected \<in> set reads \<Longrightarrow>
   \<exists>x. snd (while_loop parse buffer reads) = Finished x"
  by (induction parse buffer reads rule: while_loop.induct)
     (auto simp: Let_def split: prod.splits)

lemma for_lines_unbuffered_no_release:
  "for_lines_unbuffered parse ls = (es, r) \<Longrightarrow> ReleaseLock \<notin> set es"
proof (induction ls arbitrary: es r)
  case Nil
  then show ?case by simp
next
  case (Cons l ls)
  obtain es' r' where t: "for_lines_unbuffered parse ls = (es', r')"
    by (cases "for_lines_unbuffered parse ls")
  from Cons.IH[OF t] have "ReleaseLock \<notin> set es'" .
  with Cons.prems t show ?case
    by (auto simp: Let_def split: if_splits option.splits)
qed

lemma while_loop_unbuffered_no_release:
  "while_loop_unbuffered parse reads = (es, g) \<Longrightarrow> ReleaseLock \<notin> set es"
proof (induction reads arbitrary: es g)
  case Nil
  then show ?case by simp
next
  case (Cons r reads)
  show ?case
  proof (cases r)
    case (Chunk v)
    obtain e1 b where f: "for_lines_unbuffered parse (split_nl v) = (e1, b)"
      by (cases "for_lines_unbuffered parse (split_nl v)")
    obtain e2 g2 where t: "while_loop_unbuffered parse reads = (e2, g2)"
      by (cases "while_loop_unbuffered parse reads")
    from for_lines_unbuffered_no_release[OF f] Cons.IH[OF t] Cons.prems Chunk f t
    show ?thesis by (cases b) auto
  next
    case Done
    with Cons.prems show ?thesis by simp
  next
    case Rejected
    with Cons.prems show ?thesis by simp
  qed
qed

text \<open>The unbuffered \<open>sendMessageStream\<close> never releases its reader, on any run.\<close>

theorem sendMessageStream_unbuffered_never_releases:
  "ReleaseLock \<notin> set (effects (sendMessageStream_unbuffered parse response abandon))"
proof (cases "ok response \<and> body response \<noteq> None")
  case False
  then show ?thesis by (auto simp: sendMessageStream_unbuffered_def)
next
  case True
  then obtain reads where b: "ok response" "body response = Some reads" by auto
  obtain es g where w: "while_loop_unbuffered parse reads = (es, g)"
    by (cases "while_loop_unbuffered parse reads")
  have nr: "ReleaseLock \<notin> set es" by (rule while_loop_unbuffered_no_release[OF w])
  show ?thesis
  proof (cases "cut_effects abandon es")
    case None
    with b w nr show ?thesis by (simp add: sendMessageStream_unbuffered_def)
  next
    case (Some pre)
    with cut_subset[OF Some] nr have "ReleaseLock \<notin> set pre" by auto
    with Some b w show ?thesis by (simp add: sendMessageStream_unbuffered_def)
  qed
qed

section \<open>The claims\<close>

text \<open>
  C1. For a valid stream and every way of splitting its text into chunks, the stream client
  yields the same payloads followed by the same completion. The buffered client has this
  property (\<open>sendMessageStream_chunking\<close>). The unbuffered client does not: with the text
  \<open>data: {"text":"Hello"}\<close>, an empty line and \<open>data: [DONE]\<close>, cut inside the first line, it
  parses the two halves of that line on their own and yields nothing, while the same text in
  one chunk yields the payload.
\<close>

theorem unbuffered_split_line_is_lost:
  \<open>sendMessageStream_unbuffered sample_parse
      (ok_response [Chunk ''data: {"text":"He'',
                    Chunk ''llo"}\<newline>\<newline>data: [DONE]\<newline>'', Done]) None
     = \<lparr>effects = [], state = Finished Returned\<rparr>
   \<and> sendMessageStream_unbuffered sample_parse
      (ok_response [Chunk ''data: {"text":"Hello"}\<newline>\<newline>data: [DONE]\<newline>'', Done]) None
     = \<lparr>effects = [Yield (JObject [(''text'', JString ''Hello'')])],
         state = Finished Returned\<rparr>\<close>
  by (simp add: sendMessageStream_unbuffered_def ok_response_def sample_parse_def cut_effects_def
      startsWith_def slice_def newline_def)

text \<open>
  C2. The chunk \<open>data: [DO\<close> followed by the chunk \<open>NE]\<close> with its line feed yields the
  completion of the stream and nothing else. Neither client completes there. The buffered
  client holds the first chunk back until its line is complete
  (\<open>buffered_holds_partial_line\<close>) and yields nothing false for it, but \<open>processLine\<close> answers
  the completed terminator with \<open>null\<close>, as for a blank line: after the two chunks the
  generator is still suspended, waiting for the next read, and a data line that follows is
  yielded. The unbuffered client never sees the terminator, which it gets in two halves, and
  goes on in the same way.
\<close>

theorem split_terminator_does_not_complete:
  \<open>while_loop sample_parse [] [Chunk ''data: [DO'', Chunk ''NE]\<newline>''] = ([], Suspended [])
   \<and> sendMessageStream sample_parse
        (ok_response [Chunk ''data: [DO'', Chunk ''NE]\<newline>'',
                      Chunk ''data: {"text":"Hello"}\<newline>'', Done]) None
      = \<lparr>effects = [Yield (JObject [(''text'', JString ''Hello'')]), ReleaseLock],
          state = Finished Returned\<rparr>
   \<and> while_loop_unbuffered sample_parse [Chunk ''data: [DO'', Chunk ''NE]\<newline>'']
      = ([], Suspended [])
   \<and> sendMessageStream_unbuffered sample_parse
        (ok_response [Chunk ''data: [DO'', Chunk ''NE]\<newline>'',
                      Chunk ''data: {"text":"Hello"}\<newline>'', Done]) None
      = \<lparr>effects = [Yield (JObject [(''text'', JString ''Hello'')])],
          state = Finished Returned\<rparr>\<close>
  by (simp add: sendMessageStream_def sendMessageStream_unbuffered_def ok_response_def
      sample_parse_def cut_effects_def processLine_def trim_def is_whitespace_def
      startsWith_def slice_def newline_def)

lemma buffered_holds_partial_line:
  \<open>while_loop parse [] [Chunk ''data: [DO''] = ([], Suspended ''data: [DO'')\<close>
  by (simp add: newline_def)

text \<open>
  C3. Once a complete line with the payload \<open>[DONE]\<close> is decoded, iteration stops there and
  no payload is yielded after it. The unbuffered client returns at that line
  (\<open>unbuffered_stops_at_terminator\<close>). In the buffered client \<open>processLine\<close> answers the
  terminator with \<open>null\<close>, as it does for a blank line, and the loop goes on: a data line
  after the terminator, in the same chunk or in a later one, is yielded.
\<close>

theorem buffered_yields_after_terminator:
  \<open>sendMessageStream sample_parse
      (ok_response [Chunk ''data: [DONE]\<newline>data: {"text":"Hello"}\<newline>'', Done]) None
     = \<lparr>effects = [Yield (JObject [(''text'', JString ''Hello'')]), ReleaseLock],
         state = Finished Returned\<rparr>
   \<and> sendMessageStream sample_parse
      (ok_response [Chunk ''data: [DONE]\<newline>'',
                    Chunk ''data: {"text":"Hello"}\<newline>'', Done]) None
     = \<lparr>effects = [Yield (JObject [(''text'', JString ''Hello'')]), ReleaseLock],
         state = Finished Returned\<rparr>\<close>
  by (simp add: sendMessageStream_def ok_response_def sample_parse_def cut_effects_def
      processLine_def trim_def is_whitespace_def startsWith_def slice_def newline_def)

lemma unbuffered_stops_at_terminator:
  \<open>while_loop_unbuffered parse (Chunk (''data: [DONE]'' @ newline # tail) # rest)
     = ([], Finished Returned)\<close>
  by (simp add: startsWith_def slice_def newline_def)

text \<open>
  C4. After a successful response the body reader is released exactly once on every exit
  path. The buffered client does so (\<open>sendMessageStream_releases_once\<close>). The unbuffered
  client never calls \<open>releaseLock\<close> (\<open>sendMessageStream_unbuffered_never_releases\<close>): its run
  to the end of the body, its run abandoned at the first value and its run ended by a
  rejected read all finish without a release.
\<close>

theorem unbuffered_exits_without_release:
  \<open>sendMessageStream_unbuffered sample_parse
      (ok_response [Chunk ''data: {"text":"Hello"}\<newline>'', Done]) None
     = \<lparr>effects = [Yield (JObject [(''text'', JString ''Hello'')])],
         state = Finished Returned\<rparr>
   \<and> sendMessageStream_unbuffered sample_parse
      (ok_response [Chunk ''data: {"text":"Hello"}\<newline>'', Done]) (Some 0)
     = \<lparr>effects = [Yield (JObject [(''text'', JString ''Hello'')])],
         state = Finished Abandoned\<rparr>
   \<and> sendMessageStream_unbuffered sample_parse
      (ok_response [Chunk ''data: {"text":"Hello"}\<newline>'', Rejected]) None
     = \<lparr>effects = [Yield (JObject [(''text'', JString ''Hello'')])],
         state = Finished (Threw ReadFailed)\<rparr>\<close>
  by (simp add: sendMessageStream_unbuffered_def ok_response_def sample_parse_def cut_effects_def
      startsWith_def slice_def newline_def)

text \<open>
  C5, as amended. In the unbuffered client, which ignores every failed parse (the comment of
  its \<open>catch\<close> block says so), a complete line that is the prefix \<open>data: \<close> with an empty
  payload yields nothing and reports nothing, and the lines after it are processed as if it
  were not there: \<open>JSON.parse\<close> rejects the empty text. Nothing is said here about the
  buffered client.
\<close>

theorem empty_payload_line_ignored:
  "parse [] = None \<Longrightarrow>
   for_lines_unbuffered parse (''data: '' # after) = for_lines_unbuffered parse after
   \<and> while_loop_unbuffered parse (Chunk (''data: '' @ newline # tail) # rest)
      = while_loop_unbuffered parse (Chunk tail # rest)"
  by (simp add: startsWith_def slice_def newline_def)

theorem empty_payload_line_ignored_witness:
  \<open>sample_parse [] = None
   \<and> for_lines_unbuffered sample_parse [''data: '', ''data: {"text":"Hello"}'']
      = ([Yield (JObject [(''text'', JString ''Hello'')])], False)
   \<and> while_loop_unbuffered sample_parse
        [Chunk ''data: \<newline>data: {"text":"Hello"}\<newline>'', Done]
      = ([Yield (JObject [(''text'', JString ''Hello'')])], Finished Returned)\<close>
proof -
  have h: "sample_parse [] = None"
    by (simp add: sample_parse_def)
  from empty_payload_line_ignored
         [of sample_parse \<open>[''data: {"text":"Hello"}'']\<close>
             \<open>''data: {"text":"Hello"}\<newline>''\<close> "[Done]", OF h] h
  show ?thesis
    by (simp add: sample_parse_def startsWith_def slice_def newline_def)
qed

text \<open>
  C5 as written asks for a parse error to be reported for such a line. Neither client
  reports one: the run on the single line \<open>data: \<close> holds no warning. In the buffered
  client \<open>trim\<close> takes the space of the prefix away, so that the line is no longer taken
  for a data line, while a payload such as \<open>x\<close> on the same path is parsed and warned
  about (\<open>buffered_warns_on_failed_parse\<close>).
\<close>

theorem empty_payload_line_counterexample:
  \<open>sendMessageStream sample_parse (ok_response [Chunk ''data: \<newline>'', Done]) None
     = \<lparr>effects = [ReleaseLock], state = Finished Returned\<rparr>
   \<and> sendMessageStream_unbuffered sample_parse (ok_response [Chunk ''data: \<newline>'', Done]) None
     = \<lparr>effects = [], state = Finished Returned\<rparr>\<close>
  by (simp add: sendMessageStream_def sendMessageStream_unbuffered_def ok_response_def
      sample_parse_def cut_effects_def processLine_def trim_def is_whitespace_def startsWith_def
      slice_def newline_def)

lemma buffered_warns_on_failed_parse:
  \<open>parse ''x'' = None \<Longrightarrow> processLine parse ''data: x'' = (JNull, [Warn ''x''])\<close>
  by (simp add: processLine_def trim_def is_whitespace_def startsWith_def slice_def)

text \<open>
  C6, as amended. The line \<open>data: {malformed json\<close> yields no payload, does not end the
  stream and does not keep later data lines from being yielded: after it the loop goes on
  with the rest of the body as if it started there. The buffered client reports the failed
  parse once, by a warning with the payload. The unbuffered client ignores it, as the
  comment of its \<open>catch\<close> block says, and reports nothing. The hypotheses say what
  \<open>JSON.parse\<close> does with the two payloads.
\<close>

theorem malformed_line_is_not_fatal:
  assumes m: \<open>parse ''{malformed json'' = None\<close>
    and h: \<open>parse ''{"text":"Hello"}'' = Some (JObject [(''text'', JString ''Hello'')])\<close>
  shows \<open>while_loop parse [] (Chunk ''data: {malformed json\<newline>'' # rest)
           = (case while_loop parse [] rest of
                (es, g) \<Rightarrow> (Warn ''{malformed json'' # es, g))
       \<and> while_loop_unbuffered parse (Chunk ''data: {malformed json\<newline>'' # rest)
           = while_loop_unbuffered parse rest
       \<and> sendMessageStream parse
            (ok_response [Chunk ''data: {malformed json\<newline>'',
                          Chunk ''data: {"text":"Hello"}\<newline>'', Done]) None
           = \<lparr>effects = [Warn ''{malformed json'',
                          Yield (JObject [(''text'', JString ''Hello'')]), ReleaseLock],
               state = Finished Returned\<rparr>
       \<and> sendMessageStream_unbuffered parse
            (ok_response [Chunk ''data: {malformed json\<newline>'',
                          Chunk ''data: {"text":"Hello"}\<newline>'', Done]) None
           = \<lparr>effects = [Yield (JObject [(''text'', JString ''Hello'')])],
               state = Finished Returned\<rparr>\<close>
  using m h
  by (simp add: sendMessageStream_def sendMessageStream_unbuffered_def ok_response_def
      cut_effects_def processLine_def trim_def is_whitespace_def startsWith_def slice_def
      newline_def)

theorem malformed_line_is_not_fatal_witness:
  \<open>sample_parse ''{malformed json'' = None
   \<and> sample_parse ''{"text":"Hello"}'' = Some (JObject [(''text'', JString ''Hello'')])
   \<and> while_loop sample_parse []
        [Chunk ''data: {malformed json\<newline>'', Chunk ''data: {"text":"Hello"}\<newline>'', Done]
      = ([Warn ''{malformed json'', Yield (JObject [(''text'', JString ''Hello'')])],
         Finished Returned)
   \<and> while_loop_unbuffered sample_parse
        [Chunk ''data: {malformed json\<newline>'', Chunk ''data: {"text":"Hello"}\<newline>'', Done]
      = ([Yield (JObject [(''text'', JString ''Hello'')])], Finished Returned)
   \<and> sendMessageStream sample_parse
        (ok_response [Chunk ''data: {malformed json\<newline>'',
                      Chunk ''data: {"text":"Hello"}\<newline>'', Done]) None
      = \<lparr>effects = [Warn ''{malformed json'',
                     Yield (JObject [(''text'', JString ''Hello'')]), ReleaseLock],
          state = Finished Returned\<rparr>\<close>
proof -
  have m: \<open>sample_parse ''{malformed json'' = None\<close>
    by (simp add: sample_parse_def)
  have h: \<open>sample_parse ''{"text":"Hello"}'' = Some (JObject [(''text'', JString ''Hello'')])\<close>
    by (simp add: sample_parse_def)
  from malformed_line_is_not_fatal
         [of sample_parse \<open>[Chunk ''data: {"text":"Hello"}\<newline>'', Done]\<close>, OF m h] m h
  show ?thesis
    by (simp add: processLine_def trim_def is_whitespace_def startsWith_def slice_def
        newline_def)
qed

text \<open>
  C6 as written asks for exactly one parse error. The unbuffered client reports none: its
  run on the malformed line and a valid one holds the later payload and nothing else.
\<close>

theorem unbuffered_malformed_line_silent:
  \<open>sendMessageStream_unbuffered sample_parse
      (ok_response [Chunk ''data: {malformed json\<newline>'',
                    Chunk ''data: {"text":"Hello"}\<newline>'', Done]) None
     = \<lparr>effects = [Yield (JObject [(''text'', JString ''Hello'')])],
         state = Finished Returned\<rparr>\<close>
  by (simp add: sendMessageStream_unbuffered_def ok_response_def sample_parse_def cut_effects_def
      startsWith_def slice_def newline_def)

text \<open>
  C7. At the end of the body, a buffer that holds \<open>data: {"text":"partial"}\<close> without a line
  feed is processed as a last line and yields that payload once. The branch ends with
  \<open>break\<close>: whatever the reader would deliver afterwards, a second end of input included,
  is never read, and nothing more is yielded. The unbuffered client, which has no buffer,
  yields the payload when the chunk arrives, and also once.
\<close>

theorem end_of_input_flushes_once:
  \<open>parse ''{"text":"partial"}'' = Some (JObject [(''text'', JString ''partial'')]) \<Longrightarrow>
   while_loop parse ''data: {"text":"partial"}'' (Done # rest)
     = ([Yield (JObject [(''text'', JString ''partial'')])], Finished Returned)
   \<and> sendMessageStream parse
        (ok_response (Chunk ''data: {"text":"partial"}'' # Done # rest)) None
      = \<lparr>effects = [Yield (JObject [(''text'', JString ''partial'')]), ReleaseLock],
          state = Finished Returned\<rparr>
   \<and> sendMessageStream_unbuffered parse
        (ok_response (Chunk ''data: {"text":"partial"}'' # Done # rest)) None
      = \<lparr>effects = [Yield (JObject [(''text'', JString ''partial'')])],
          state = Finished Returned\<rparr>\<close>
  by (simp add: sendMessageStream_def sendMessageStream_unbuffered_def ok_response_def cut_effects_def
      processLine_def trim_def is_whitespace_def startsWith_def slice_def newline_def)

theorem end_of_input_flushes_once_witness:
  \<open>sample_parse ''{"text":"partial"}'' = Some (JObject [(''text'', JString ''partial'')])
   \<and> while_loop sample_parse ''data: {"text":"partial"}'' [Done, Done]
      = ([Yield (JObject [(''text'', JString ''partial'')])], Finished Returned)
   \<and> sendMessageStream sample_parse
        (ok_response [Chunk ''data: {"text":"partial"}'', Done, Done]) None
      = \<lparr>effects = [Yield (JObject [(''text'', JString ''partial'')]), ReleaseLock],
          state = Finished Returned\<rparr>
   \<and> sendMessageStream_unbuffered sample_parse
        (ok_response [Chunk ''data: {"text":"partial"}'', Done, Done]) None
      = \<lparr>effects = [Yield (JObject [(''text'', JString ''partial'')])],
          state = Finished Returned\<rparr>\<close>
proof -
  have h: \<open>sample_parse ''{"text":"partial"}'' = Some (JObject [(''text'', JString ''partial'')])\<close>
    by (simp add: sample_parse_def)
  from end_of_input_flushes_once[of sample_parse "[Done]", OF h] h show ?thesis
    by simp
qed

text \<open>
  C8. When the three messages \<open>{"type":"token","token":"a"}\<close>,
  \<open>{"type":"token","token":"b"}\<close> and \<open>{"type":"complete"}\<close> arrive in this order, the handler
  calls \<open>onMessage\<close> with \<open>a\<close>, then \<open>onMessage\<close> with \<open>b\<close>, then \<open>onComplete\<close>, and nothing else:
  \<open>onComplete\<close> once, \<open>onError\<close> never. A message object whose \<open>type\<close> is none of \<open>token\<close>,
  \<open>complete\<close>, \<open>error\<close> (or is missing) calls nothing. The hypotheses say what \<open>JSON.parse\<close>
  returns for the three texts.
\<close>

theorem onmessage_dispatch:
  assumes a: \<open>parse ''{"type":"token","token":"a"}'' =
               Some (JObject [(''type'', JString ''token''), (''token'', JString ''a'')])\<close>
    and b: \<open>parse ''{"type":"token","token":"b"}'' =
               Some (JObject [(''type'', JString ''token''), (''token'', JString ''b'')])\<close>
    and c: \<open>parse ''{"type":"complete"}'' = Some (JObject [(''type'', JString ''complete'')])\<close>
  shows \<open>onmessages parse
           [''{"type":"token","token":"a"}'', ''{"type":"token","token":"b"}'',
            ''{"type":"complete"}'']
         = [OnMessage (Some (JString ''a'')), OnMessage (Some (JString ''b'')), OnComplete]
       \<and> (\<forall>m kvs. parse m = Some (JObject kvs) \<longrightarrow>
              map_of kvs ''type'' \<notin> {Some (JString ''token''), Some (JString ''complete''),
                                     Some (JString ''error'')} \<longrightarrow>
              onmessage parse m = [])\<close>
proof (intro conjI allI impI)
  show \<open>onmessages parse
           [''{"type":"token","token":"a"}'', ''{"type":"token","token":"b"}'',
            ''{"type":"complete"}'']
         = [OnMessage (Some (JString ''a'')), OnMessage (Some (JString ''b'')), OnComplete]\<close>
    by (simp add: onmessages_def onmessage_def a b c)
next
  fix m kvs
  assume "parse m = Some (JObject kvs)"
    and "map_of kvs ''type'' \<notin> {Some (JString ''token''), Some (JString ''complete''),
                                   Some (JString ''error'')}"
  then show "onmessage parse m = []"
    by (simp add: onmessage_def)
qed

theorem onmessage_dispatch_witness:
  \<open>sample_parse ''{"type":"token","token":"a"}'' =
      Some (JObject [(''type'', JString ''token''), (''token'', JString ''a'')])
   \<and> sample_parse ''{"type":"token","token":"b"}'' =
      Some (JObject [(''type'', JString ''token''), (''token'', JString ''b'')])
   \<and> sample_parse ''{"type":"complete"}'' = Some (JObject [(''type'', JString ''complete'')])
   \<and> sample_parse ''{"type":"ping"}'' = Some (JObject [(''type'', JString ''ping'')])
   \<and> onmessages sample_parse
        [''{"type":"token","token":"a"}'', ''{"type":"token","token":"b"}'',
         ''{"type":"complete"}'']
      = [OnMessage (Some (JString ''a'')), OnMessage (Some (JString ''b'')), OnComplete]
   \<and> onmessage sample_parse ''{"type":"ping"}'' = []\<close>
proof -
  have a: \<open>sample_parse ''{"type":"token","token":"a"}'' =
      Some (JObject [(''type'', JString ''token''), (''token'', JString ''a'')])\<close>
    by (simp add: sample_parse_def)
  have b: \<open>sample_parse ''{"type":"token","token":"b"}'' =
      Some (JObject [(''type'', JString ''token''), (''token'', JString ''b'')])\<close>
    by (simp add: sample_parse_def)
  have c: \<open>sample_parse ''{"type":"complete"}'' = Some (JObject [(''type'', JString ''complete'')])\<close>
    by (simp add: sample_parse_def)
  have d: \<open>sample_parse ''{"type":"ping"}'' = Some (JObject [(''type'', JString ''ping'')])\<close>
    by (simp add: sample_parse_def)
  have u: \<open>map_of [(''type'', JString ''ping'')] ''type''
             \<notin> {Some (JString ''token''), Some (JString ''complete''), Some (JString ''error'')}\<close>
    by simp
  from onmessage_dispatch[OF a b c] d u
  have \<open>onmessages sample_parse
        [''{"type":"token","token":"a"}'', ''{"type":"token","token":"b"}'',
         ''{"type":"complete"}'']
      = [OnMessage (Some (JString ''a'')), OnMessage (Some (JString ''b'')), OnComplete]\<close>
    and \<open>onmessage sample_parse ''{"type":"ping"}'' = []\<close>
    by blast+
  with a b c d show ?thesis by blast
qed

text \<open>
  C9. \<open>sendWebSocketMessage\<close> on a socket that is \<open>OPEN\<close> hands \<open>ws.send\<close> one text, the
  serialisation of the object with \<open>type\<close> \<open>chat\<close> and the messages in their order. On a
  socket in any other state it throws; nothing is sent and nothing is kept for later.
\<close>

theorem sendWebSocketMessage_open_or_throw:
  "(readyState ws = OPEN \<longrightarrow>
      sendWebSocketMessage stringify ws messages =
        Inr (ws\<lparr>sent := sent ws @ [stringify (JObject [(''type'', JString ''chat''),
                                                       (''messages'', JArray messages)])]\<rparr>))
   \<and> (readyState ws \<noteq> OPEN \<longrightarrow> sendWebSocketMessage stringify ws messages = Inl NotConnected)"
  by (simp add: sendWebSocketMessage_def)

theorem sendWebSocketMessage_open_or_throw_witness:
  \<open>readyState \<lparr>readyState = OPEN, sent = []\<rparr> = OPEN
   \<and> sendWebSocketMessage (\<lambda>v. ''{"type":"chat","messages":[]}'')
        \<lparr>readyState = OPEN, sent = []\<rparr> []
      = Inr \<lparr>readyState = OPEN, sent = [''{"type":"chat","messages":[]}'']\<rparr>
   \<and> readyState \<lparr>readyState = CONNECTING, sent = []\<rparr> \<noteq> OPEN
   \<and> sendWebSocketMessage (\<lambda>v. ''{"type":"chat","messages":[]}'')
        \<lparr>readyState = CONNECTING, sent = []\<rparr> []
      = Inl NotConnected\<close>
  using sendWebSocketMessage_open_or_throw
          [of "\<lparr>readyState = OPEN, sent = []\<rparr>" \<open>\<lambda>v. ''{"type":"chat","messages":[]}''\<close> "[]"]
        sendWebSocketMessage_open_or_throw
          [of "\<lparr>readyState = CONNECTING, sent = []\<rparr>"
              \<open>\<lambda>v. ''{"type":"chat","messages":[]}''\<close> "[]"]
  by simp

text \<open>
  C10. A generation parameter given as \<open>0\<close> does not reach the request body of \<open>sendMessage\<close>
  and \<open>sendMessageStream\<close>: \<open>max_tokens\<close> becomes \<open>1000\<close>, \<open>temperature\<close> becomes \<open>0.7\<close> and
  \<open>top_p\<close> becomes \<open>0.9\<close>, because \<open>||\<close> replaces every falsy value.
\<close>

theorem zero_parameter_replaced_by_default:
  "(maxTokens opts = Some 0 \<longrightarrow>
      property (request_body messages opts) ''max_tokens'' = Some (JNumber 1000))
   \<and> (temperature opts = Some 0 \<longrightarrow>
      property (request_body messages opts) ''temperature'' = Some (JNumber (7 / 10)))
   \<and> (topP opts = Some 0 \<longrightarrow>
      property (request_body messages opts) ''top_p'' = Some (JNumber (9 / 10)))"
  by (simp add: request_body_def or_default_def)

theorem zero_parameter_replaced_by_default_witness:
  "maxTokens \<lparr>maxTokens = Some 0, temperature = Some 0, topP = Some 0\<rparr> = Some 0
   \<and> temperature \<lparr>maxTokens = Some 0, temperature = Some 0, topP = Some 0\<rparr> = Some 0
   \<and> topP \<lparr>maxTokens = Some 0, temperature = Some 0, topP = Some 0\<rparr> = Some 0
   \<and> property (request_body [] \<lparr>maxTokens = Some 0, temperature = Some 0, topP = Some 0\<rparr>)
        ''max_tokens'' = Some (JNumber 1000)
   \<and> property (request_body [] \<lparr>maxTokens = Some 0, temperature = Some 0, topP = Some 0\<rparr>)
        ''temperature'' = Some (JNumber (7 / 10))
   \<and> property (request_body [] \<lparr>maxTokens = Some 0, temperature = Some 0, topP = Some 0\<rparr>)
        ''top_p'' = Some (JNumber (9 / 10))"
  using zero_parameter_replaced_by_default
          [of "\<lparr>maxTokens = Some 0, temperature = Some 0, topP = Some 0\<rparr>" "[]"]
  by simp

end
